theory Spec2Isabelle
  imports Complex_Main
begin

section \<open>Values of the language\<close>

text \<open>
  A JavaScript \<open>number\<close> is a finite real or \<open>NaN\<close>. Arithmetic on the finite
  values is exact: rounding, overflow and the infinities of the double format are
  outside this development. \<open>NaN\<close> is kept, because \<open>parseFloat\<close> produces it on
  ordinary input and every comparison with it is false.
\<close>

datatype number = NaN | Num real

fun truthy_num :: "number \<Rightarrow> bool" where
  "truthy_num NaN = False"
| "truthy_num (Num r) = (r \<noteq> 0)"

fun num_gt :: "number \<Rightarrow> real \<Rightarrow> bool" where
  "num_gt NaN c = False"
| "num_gt (Num r) c = (r > c)"

fun num_lt :: "number \<Rightarrow> real \<Rightarrow> bool" where
  "num_lt NaN c = False"
| "num_lt (Num r) c = (r < c)"

fun num_le :: "number \<Rightarrow> real \<Rightarrow> bool" where
  "num_le NaN c = False"
| "num_le (Num r) c = (r \<le> c)"

text \<open>\<open>1 / n\<close>. Every division of the program is guarded: the divisor is never 0.\<close>

fun recip :: "number \<Rightarrow> number" where
  "recip NaN = NaN"
| "recip (Num r) = Num (1 / r)"

text \<open>\<open>Number.isInteger\<close>\<close>

fun isInteger :: "number \<Rightarrow> bool" where
  "isInteger NaN = False"
| "isInteger (Num r) = (of_int \<lfloor>r\<rfloor> = r)"

text \<open>\<open>v || undefined\<close> and \<open>v || null\<close> on an optional number: a falsy value is dropped.\<close>

fun or_undefined :: "number option \<Rightarrow> number option" where
  "or_undefined None = None"
| "or_undefined (Some n) = (if truthy_num n then Some n else None)"

text \<open>
  The value \<open>JSON.parse\<close> returns. An object is the list of its properties; the
  first pair of a key is the property of that key.
\<close>

datatype json =
    JNull
  | JBool bool
  | JNum real
  | JStr string
  | JArr "json list"
  | JObj "(string \<times> json) list"

fun truthy :: "json \<Rightarrow> bool" where
  "truthy JNull = False"
| "truthy (JBool b) = b"
| "truthy (JNum r) = (r \<noteq> 0)"
| "truthy (JStr s) = (s \<noteq> [])"
| "truthy (JArr xs) = True"
| "truthy (JObj kvs) = True"

text \<open>\<open>parsed.key\<close> on a value other than \<open>null\<close>; \<open>None\<close> is \<open>undefined\<close>.\<close>

fun prop_of :: "json \<Rightarrow> string \<Rightarrow> json option" where
  "prop_of (JObj kvs) k = map_of kvs k"
| "prop_of v k = None"

section \<open>Strings\<close>

definition is_digit :: "char \<Rightarrow> bool" where
  "is_digit c = (48 \<le> (of_char c :: nat) \<and> (of_char c :: nat) \<le> 57)"

definition digit_val :: "char \<Rightarrow> nat" where
  "digit_val c = of_char c - 48"

text \<open>White space of the ASCII range: tab, line feed, vertical tab, form feed, carriage return, space.\<close>

definition is_space :: "char \<Rightarrow> bool" where
  "is_space c = ((of_char c :: nat) \<in> {9, 10, 11, 12, 13, 32})"

definition newline :: char where
  "newline = CHR 0x0A"

definition backtick :: char where
  "backtick = CHR 0x60"

definition dquote :: char where
  "dquote = CHR 0x22"

text \<open>The three backticks of a fence, the opening fence of a JSON block, and the key \<open>"rate"\<close> with its quotes.\<close>

definition fence :: string where
  "fence = [backtick, backtick, backtick]"

definition fence_json :: string where
  "fence_json = fence @ ''json''"

definition rate_key :: string where
  "rate_key = dquote # ''rate'' @ [dquote]"

fun startsWith :: "string \<Rightarrow> string \<Rightarrow> bool" where
  "startsWith s [] = True"
| "startsWith [] (p # ps) = False"
| "startsWith (c # cs) (p # ps) = (c = p \<and> startsWith cs ps)"

text \<open>The index of the first, and of the last, occurrence of a pattern.\<close>

fun indexOf :: "string \<Rightarrow> string \<Rightarrow> nat option" where
  "indexOf [] p = (if p = [] then Some 0 else None)"
| "indexOf (c # cs) p =
     (if startsWith (c # cs) p then Some 0 else map_option Suc (indexOf cs p))"

fun lastIndexOf :: "string \<Rightarrow> string \<Rightarrow> nat option" where
  "lastIndexOf [] p = (if p = [] then Some 0 else None)"
| "lastIndexOf (c # cs) p =
     (case lastIndexOf cs p of
        Some i \<Rightarrow> Some (Suc i)
      | None \<Rightarrow> if startsWith (c # cs) p then Some 0 else None)"

definition str_includes :: "string \<Rightarrow> string \<Rightarrow> bool" where
  "str_includes s p = (indexOf s p \<noteq> None)"

text \<open>\<open>String.prototype.trim\<close>\<close>

definition trim :: "string \<Rightarrow> string" where
  "trim s = rev (dropWhile is_space (rev (dropWhile is_space s)))"

subsection \<open>parseFloat\<close>

text \<open>
  \<open>parseFloat\<close> on a string: leading white space is skipped, then the longest prefix
  that is a decimal literal (sign, digits, fraction, exponent) is read; \<open>NaN\<close> when
  there is none. The literal \<open>Infinity\<close> is not a finite number and is read as no literal.
\<close>

definition nat_of_digits :: "string \<Rightarrow> nat" where
  "nat_of_digits ds = foldl (\<lambda>a c. 10 * a + digit_val c) 0 ds"

definition exponent_of :: "string \<Rightarrow> int" where
  "exponent_of s =
     (case s of
        [] \<Rightarrow> 0
      | e # r \<Rightarrow>
          if e = CHR ''e'' \<or> e = CHR ''E'' then
            (case r of
               [] \<Rightarrow> 0
             | g # r' \<Rightarrow>
                 if g = CHR ''-'' then - int (nat_of_digits (takeWhile is_digit r'))
                 else if g = CHR ''+'' then int (nat_of_digits (takeWhile is_digit r'))
                 else int (nat_of_digits (takeWhile is_digit r)))
          else 0)"

definition scale10 :: "real \<Rightarrow> int \<Rightarrow> real" where
  "scale10 m e = (if 0 \<le> e then m * 10 ^ nat e else m / 10 ^ nat (- e))"

definition unsigned_literal :: "string \<Rightarrow> number" where
  "unsigned_literal s =
     (let ip = takeWhile is_digit s;
          r1 = dropWhile is_digit s;
          dot = (r1 \<noteq> [] \<and> hd r1 = CHR ''.'');
          fp = (if dot then takeWhile is_digit (tl r1) else []);
          r2 = (if dot then dropWhile is_digit (tl r1) else r1)
      in if ip = [] \<and> fp = [] then NaN
         else Num (scale10
                (real (nat_of_digits ip) + real (nat_of_digits fp) / 10 ^ length fp)
                (exponent_of r2)))"

definition parseFloat :: "string \<Rightarrow> number" where
  "parseFloat s =
     (case dropWhile is_space s of
        [] \<Rightarrow> NaN
      | c # r \<Rightarrow>
          if c = CHR ''-'' then
            (case unsigned_literal r of NaN \<Rightarrow> NaN | Num v \<Rightarrow> Num (- v))
          else if c = CHR ''+'' then unsigned_literal r
          else unsigned_literal (c # r))"

text \<open>
  \<open>parseFloat\<close> on a parsed value converts it to a string first: a number reads back
  as itself, \<open>true\<close>, \<open>null\<close> and objects give no literal, and an array is its elements
  joined by commas, of which only the first can be read.
\<close>

fun parseFloat_json :: "json \<Rightarrow> number" where
  "parseFloat_json JNull = NaN"
| "parseFloat_json (JBool b) = NaN"
| "parseFloat_json (JNum r) = Num r"
| "parseFloat_json (JStr s) = parseFloat s"
| "parseFloat_json (JArr []) = NaN"
| "parseFloat_json (JArr (x # xs)) = parseFloat_json x"
| "parseFloat_json (JObj kvs) = NaN"


section \<open>The oracle's answer and its parser\<close>

record Source =
  title :: string
  uri :: string

record ExchangeData =
  rate :: number
  parallelRate :: "number option"
  lastUpdated :: string
  summary :: string
  sources :: "Source list"

datatype CurrencyCode = USD | NGN | EUR | GBP | CAD

fun code_str :: "CurrencyCode \<Rightarrow> string" where
  "code_str USD = ''USD''"
| "code_str NGN = ''NGN''"
| "code_str EUR = ''EUR''"
| "code_str GBP = ''GBP''"
| "code_str CAD = ''CAD''"

text \<open>
  A thrown value, as the retry wrapper inspects it: \<open>status\<close> and \<open>code\<close> hold the
  field when it is a whole number, \<open>message\<close> the field when it is a string.
\<close>

record js_error =
  status :: "int option"
  code :: "int option"
  message :: "string option"

definition Error :: "string \<Rightarrow> js_error" where
  "Error m = \<lparr>status = None, code = None, message = Some m\<rparr>"

text \<open>
  The answer of \<open>generateContent\<close>: \<open>response.text || ""\<close> and the grounding chunks,
  each with its \<open>web\<close> entry or without one.
\<close>

record response =
  resp_text :: string
  groundingChunks :: "Source option list"

subsection \<open>The regular expressions\<close>

text \<open>
  The fenced block: the first opening fence followed by a line feed, then the shortest
  content up to a line feed and a closing fence. The result is the whole match and
  its group.
\<close>

definition match_fenced :: "string \<Rightarrow> (string \<times> string) option" where
  "match_fenced t =
     (case indexOf t (fence_json @ [newline]) of
        None \<Rightarrow> None
      | Some i \<Rightarrow>
          (case indexOf (drop (i + 8) t) (newline # fence) of
             None \<Rightarrow> None
           | Some j \<Rightarrow> Some (take (j + 12) (drop i t), take j (drop (i + 8) t))))"

text \<open>
  The object-like substring: from the first opening brace to the last closing
  brace, when the key \<open>"rate"\<close> stands between them.
\<close>

definition match_braces :: "string \<Rightarrow> string option" where
  "match_braces t =
     (case indexOf t ''{'' of
        None \<Rightarrow> None
      | Some i \<Rightarrow>
          (case lastIndexOf (drop (Suc i) t) ''}'' of
             None \<Rightarrow> None
           | Some j \<Rightarrow>
               if str_includes (take j (drop (Suc i) t)) rate_key
               then Some (take (j + 2) (drop i t)) else None))"

text \<open>\<open>jsonMatch[1] || jsonMatch[0]\<close> of the first expression that matches.\<close>

definition jsonStr_of :: "string \<Rightarrow> string option" where
  "jsonStr_of t =
     (case match_fenced t of
        Some (m0, m1) \<Rightarrow> Some (if m1 \<noteq> [] then m1 else m0)
      | None \<Rightarrow> match_braces t)"

text \<open>Removing every year 2020 to 2029, left to right.\<close>

fun strip_years :: "string \<Rightarrow> string" where
  "strip_years (a # b # c # d # s) =
     (if a = CHR ''2'' \<and> b = CHR ''0'' \<and> c = CHR ''2'' \<and> is_digit d
      then strip_years s else a # strip_years (b # c # d # s))"
| "strip_years s = s"

text \<open>
  The numeric tokens: one to three digits, then groups of a comma and three digits,
  then a point and digits. Each part takes as much as it can.
\<close>

definition digits3_len :: "string \<Rightarrow> nat" where
  "digits3_len s = length (takeWhile is_digit (take 3 s))"

fun groups_len :: "string \<Rightarrow> nat" where
  "groups_len (k # a # b # c # s) =
     (if k = CHR '','' \<and> is_digit a \<and> is_digit b \<and> is_digit c
      then 4 + groups_len s else 0)"
| "groups_len s = 0"

definition frac_len :: "string \<Rightarrow> nat" where
  "frac_len s =
     (case s of
        p # d # r \<Rightarrow>
          if p = CHR ''.'' \<and> is_digit d then Suc (length (takeWhile is_digit (d # r))) else 0
      | _ \<Rightarrow> 0)"

definition token_len :: "string \<Rightarrow> nat" where
  "token_len s =
     (let n1 = digits3_len s;
          n2 = groups_len (drop n1 s);
          n3 = frac_len (drop (n1 + n2) s)
      in n1 + n2 + n3)"

function rateMatches :: "string \<Rightarrow> string list" where
  "rateMatches [] = []"
| "rateMatches (c # cs) =
     (if is_digit c
      then take (token_len (c # cs)) (c # cs) # rateMatches (drop (token_len (c # cs)) (c # cs))
      else rateMatches cs)"
  by pat_completeness auto
termination
proof (relation "measure length")
  show "wf (measure length)" by simp
next
  fix c :: char and cs :: string
  assume "is_digit c"
  then have "0 < token_len (c # cs)"
    by (simp add: token_len_def digits3_len_def Let_def)
  then show "(drop (token_len (c # cs)) (c # cs), c # cs) \<in> measure length"
    by simp
next
  fix c :: char and cs :: string
  show "(cs, c # cs) \<in> measure length" by simp
qed

text \<open>The test of \<open>candidates.find\<close>.\<close>

definition valid_candidate :: "number \<Rightarrow> bool" where
  "valid_candidate n =
     (num_gt n 0 \<and> num_lt n 10000 \<and> \<not> isInteger n \<and> n \<noteq> Num 2024 \<and> n \<noteq> Num 2025)"

text \<open>The candidates: the tokens of the text without its years, commas removed, as numbers.\<close>

definition candidates :: "string \<Rightarrow> number list" where
  "candidates t =
     map (\<lambda>m. parseFloat (filter (\<lambda>c. c \<noteq> CHR '','') m)) (rateMatches (strip_years t))"

definition regex_rate :: "string \<Rightarrow> number option" where
  "regex_rate t = find valid_candidate (candidates t)"

text \<open>
  Removing the fenced block from the summary: from the first opening fence to the
  last fence after it.
\<close>

definition strip_fence :: "string \<Rightarrow> string" where
  "strip_fence s =
     (case indexOf s fence_json of
        None \<Rightarrow> s
      | Some i \<Rightarrow>
          (case lastIndexOf (drop (i + 7) s) fence of
             None \<Rightarrow> s
           | Some j \<Rightarrow> take i s @ drop (i + 7 + j + 3) s))"

subsection \<open>Parsing\<close>

text \<open>
  The three variables of the parsing logic. \<open>summaryText\<close> is the raw text until the
  parsed object gives a truthy \<open>summary\<close>, which need not be a string.
\<close>

record parsing =
  detectedRate :: number
  parallelRate_var :: "number option"
  summaryText :: json

definition parsing_init :: "string \<Rightarrow> parsing" where
  "parsing_init t = \<lparr>detectedRate = Num 0, parallelRate_var = None, summaryText = JStr t\<rparr>"

text \<open>
  The JSON step. \<open>JSON_parse\<close> is the built-in, \<open>None\<close> when it throws; reading a
  property of \<open>null\<close> throws too, and both are caught, leaving the variables as they were.
\<close>

definition json_step :: "(string \<Rightarrow> json option) \<Rightarrow> string \<Rightarrow> parsing" where
  "json_step JSON_parse t =
     (case jsonStr_of t of
        None \<Rightarrow> parsing_init t
      | Some jsonStr \<Rightarrow>
          (case JSON_parse jsonStr of
             None \<Rightarrow> parsing_init t
           | Some JNull \<Rightarrow> parsing_init t
           | Some parsed \<Rightarrow>
               \<lparr>detectedRate =
                  (case prop_of parsed ''rate'' of
                     Some v \<Rightarrow> if truthy v then parseFloat_json v else Num 0
                   | None \<Rightarrow> Num 0),
                parallelRate_var =
                  (case prop_of parsed ''parallelRate'' of
                     Some v \<Rightarrow> if truthy v then Some (parseFloat_json v) else None
                   | None \<Rightarrow> None),
                summaryText =
                  (case prop_of parsed ''summary'' of
                     Some v \<Rightarrow> if truthy v then v else JStr t
                   | None \<Rightarrow> JStr t)\<rparr>))"

text \<open>The regular-expression step, taken when \<open>!detectedRate\<close>.\<close>

definition regex_step :: "string \<Rightarrow> parsing \<Rightarrow> parsing" where
  "regex_step t p =
     (if truthy_num (detectedRate p) then p
      else (case regex_rate t of
              Some v \<Rightarrow> p\<lparr>detectedRate := v\<rparr>
            | None \<Rightarrow> p))"

text \<open>
  The result of the parser: the zero rate is thrown first; then \<open>replace\<close> on a
  summary that is not a string throws a type error.
\<close>

definition parse_answer ::
  "(string \<Rightarrow> json option) \<Rightarrow> string \<Rightarrow> js_error + (number \<times> number option \<times> string)" where
  "parse_answer JSON_parse t =
     (let p = regex_step t (json_step JSON_parse t)
      in if detectedRate p = Num 0 then Inl (Error ''AI returned 0 rate'')
         else (case summaryText p of
                 JStr s \<Rightarrow> Inr (detectedRate p, parallelRate_var p, trim (strip_fence s))
               | _ \<Rightarrow> Inl (Error ''summaryText.replace is not a function'')))"

section \<open>The outside world\<close>

text \<open>
  Modelled from the spec: the rows of the persistent store \<open>services/supabase\<close>, which
  is not among the sources. The table \<open>currency_rates\<close> holds one row for a pair key. A
  row has the columns the program writes; \<open>parallel_rate\<close> and \<open>sources\<close> may be null,
  and \<open>updated_at\<close> is the time stamp in milliseconds.
\<close>

record DbRow =
  row_rate :: number
  parallel_rate :: "number option"
  row_summary :: string
  row_sources :: "Source list option"
  updated_at :: int

text \<open>
  What the program does not decide: the built-in \<open>JSON.parse\<close>, the formatting of a
  time of day, the successive readings of the clock in milliseconds, the outcome of
  each call of the oracle (by the number of the call and the pair asked), and
  whether the store fails.
\<close>

record env =
  JSON_parse :: "string \<Rightarrow> json option"
  toLocaleTimeString :: "int \<Rightarrow> string"
  clock :: "nat \<Rightarrow> int"
  generateContent :: "nat \<Rightarrow> CurrencyCode \<Rightarrow> CurrencyCode \<Rightarrow> js_error + response"
  select_fails :: bool
  upsert_fails :: bool

text \<open>
  What the program changes or consumes: the table, the number of oracle calls made,
  the number of clock readings taken, and the waits of the retry wrapper.
\<close>

record world =
  currency_rates :: "string \<rightharpoonup> DbRow"
  ai_calls :: nat
  clock_reads :: nat
  sleeps :: "nat list"

definition new_Date :: "env \<Rightarrow> world \<Rightarrow> int \<times> world" where
  "new_Date e w = (clock e (clock_reads w), w\<lparr>clock_reads := Suc (clock_reads w)\<rparr>)"

definition sleep :: "nat \<Rightarrow> world \<Rightarrow> world" where
  "sleep ms w = w\<lparr>sleeps := sleeps w @ [ms]\<rparr>"

text \<open>
  Modelled from the spec: reading and writing the store \<open>services/supabase\<close>. Reading a
  key gives its row or nothing, and a failed read gives nothing; an upsert replaces the
  row of the key, or fails and changes nothing.
\<close>

definition select_single :: "env \<Rightarrow> string \<Rightarrow> world \<Rightarrow> DbRow option" where
  "select_single e pairId w = (if select_fails e then None else currency_rates w pairId)"

definition upsert :: "env \<Rightarrow> string \<Rightarrow> DbRow \<Rightarrow> world \<Rightarrow> world" where
  "upsert e pairId row w =
     (if upsert_fails e then w
      else w\<lparr>currency_rates := (currency_rates w)(pairId \<mapsto> row)\<rparr>)"

section \<open>services/gemini.ts\<close>

definition CACHE_DURATION_MS :: int where
  "CACHE_DURATION_MS = 30 * 60 * 1000"

definition EMERGENCY_RATES :: "string \<rightharpoonup> number" where
  "EMERGENCY_RATES =
     map_of [(''USD-NGN'', Num 1580), (''GBP-NGN'', Num 2050),
             (''EUR-NGN'', Num 1720), (''CAD-NGN'', Num 1150)]"

definition fetchFromAI ::
  "env \<Rightarrow> CurrencyCode \<Rightarrow> CurrencyCode \<Rightarrow> world \<Rightarrow> (js_error + ExchangeData) \<times> world" where
  "fetchFromAI e from to w =
     (let w1 = w\<lparr>ai_calls := Suc (ai_calls w)\<rparr>
      in case generateContent e (ai_calls w) from to of
           Inl err \<Rightarrow> (Inl err, w1)
         | Inr resp \<Rightarrow>
             (case parse_answer (JSON_parse e) (resp_text resp) of
                Inl err \<Rightarrow> (Inl err, w1)
              | Inr (r, p, s) \<Rightarrow>
                  (case new_Date e w1 of
                     (now, w2) \<Rightarrow>
                       (Inr \<lparr>rate = r, parallelRate = p,
                             lastUpdated = toLocaleTimeString e now,
                             summary = s,
                             sources = List.map_filter id (groundingChunks resp)\<rparr>,
                        w2))))"

definition isQuota :: "js_error \<Rightarrow> bool" where
  "isQuota err =
     (status err = Some 429 \<or> code err = Some 429 \<or>
      (case message err of
         None \<Rightarrow> False
       | Some m \<Rightarrow> m \<noteq> [] \<and> (str_includes m ''429'' \<or> str_includes m ''quota'')))"

fun attemptAIFetchWithRetry ::
  "env \<Rightarrow> CurrencyCode \<Rightarrow> CurrencyCode \<Rightarrow> nat \<Rightarrow> world \<Rightarrow> (js_error + ExchangeData) \<times> world" where
  "attemptAIFetchWithRetry e from to retries w =
     (case fetchFromAI e from to w of
        (Inr r, w1) \<Rightarrow> (Inr r, w1)
      | (Inl err, w1) \<Rightarrow>
          if retries > 0 \<and> isQuota err
          then attemptAIFetchWithRetry e from to (retries - 1) (sleep 2000 w1)
          else (Inl err, w1))"

definition mapDbToExchangeData :: "env \<Rightarrow> DbRow \<Rightarrow> ExchangeData" where
  "mapDbToExchangeData e dbData =
     \<lparr>rate = row_rate dbData,
      parallelRate = or_undefined (parallel_rate dbData),
      lastUpdated = toLocaleTimeString e (updated_at dbData),
      summary = row_summary dbData,
      sources = (case row_sources dbData of None \<Rightarrow> [] | Some srcs \<Rightarrow> srcs)\<rparr>"

definition invertExchangeData :: "ExchangeData \<Rightarrow> ExchangeData" where
  "invertExchangeData d =
     (if num_le (rate d) 0 then d
      else d\<lparr>rate := recip (rate d),
             parallelRate :=
               (case parallelRate d of
                  None \<Rightarrow> None
                | Some p \<Rightarrow> if truthy_num p then Some (recip p) else None)\<rparr>)"

text \<open>Step 1: the canonical pair, and whether the result is to be inverted.\<close>

definition searchPair :: "CurrencyCode \<Rightarrow> CurrencyCode \<Rightarrow> CurrencyCode \<times> CurrencyCode \<times> bool" where
  "searchPair from to =
     (if from = NGN \<and> to \<noteq> NGN then (to, from, True) else (from, to, False))"

definition pairKey :: "CurrencyCode \<Rightarrow> CurrencyCode \<Rightarrow> string" where
  "pairKey a b = code_str a @ ''-'' @ code_str b"


text \<open>Step 2: the row read (kept as \<open>staleRecord\<close>) and the result when it is fresh.\<close>

definition checkSupabase ::
  "env \<Rightarrow> string \<Rightarrow> world \<Rightarrow> DbRow option \<times> ExchangeData option \<times> world" where
  "checkSupabase e pairId w =
     (case select_single e pairId w of
        None \<Rightarrow> (None, None, w)
      | Some dbData \<Rightarrow>
          (case new_Date e w of
             (now, w1) \<Rightarrow>
               (Some dbData,
                if now - updated_at dbData < CACHE_DURATION_MS
                then Some (mapDbToExchangeData e dbData) else None,
                w1)))"

text \<open>Step 4: the write, issued and not awaited.\<close>

definition saveToSupabase :: "env \<Rightarrow> string \<Rightarrow> ExchangeData \<Rightarrow> world \<Rightarrow> world" where
  "saveToSupabase e pairId aiResult w =
     (if num_gt (rate aiResult) 0 then
        (case new_Date e w of
           (now, w1) \<Rightarrow>
             upsert e pairId
               \<lparr>row_rate = rate aiResult,
                parallel_rate = or_undefined (parallelRate aiResult),
                row_summary = summary aiResult,
                row_sources = Some (sources aiResult),
                updated_at = now\<rparr> w1)
      else w)"

text \<open>
  Steps 5 and 6: the fallbacks after the oracle failed with \<open>aiError\<close>: the result
  built from the stale row, and the one built from the emergency table.
\<close>

definition cachedResult :: "env \<Rightarrow> DbRow \<Rightarrow> ExchangeData" where
  "cachedResult e dbData =
     (mapDbToExchangeData e dbData)
       \<lparr>lastUpdated := lastUpdated (mapDbToExchangeData e dbData) @ '' (Cached)''\<rparr>"

definition emergencyResult :: "number \<Rightarrow> ExchangeData" where
  "emergencyResult r =
     \<lparr>rate = r, parallelRate = None, lastUpdated = ''Offline Estimate'',
      summary = ''High demand detected. Showing estimated market rates while we reconnect to live data.'',
      sources = []\<rparr>"

definition fallback ::
  "env \<Rightarrow> string \<Rightarrow> DbRow option \<Rightarrow> js_error \<Rightarrow> js_error + ExchangeData" where
  "fallback e pairId staleRecord aiError =
     (case staleRecord of
        Some dbData \<Rightarrow> Inr (cachedResult e dbData)
      | None \<Rightarrow>
          (case EMERGENCY_RATES pairId of
             None \<Rightarrow> Inl aiError
           | Some r \<Rightarrow> if truthy_num r then Inr (emergencyResult r) else Inl aiError))"

text \<open>Step 7.\<close>

definition finish :: "bool \<Rightarrow> ExchangeData \<Rightarrow> ExchangeData" where
  "finish shouldInvert resultToReturn =
     (if shouldInvert then invertExchangeData resultToReturn else resultToReturn)"

definition fetchRealTimeRate ::
  "env \<Rightarrow> CurrencyCode \<Rightarrow> CurrencyCode \<Rightarrow> world \<Rightarrow> (js_error + ExchangeData) \<times> world" where
  "fetchRealTimeRate e from to w =
     (case searchPair from to of
        (searchFrom, searchTo, shouldInvert) \<Rightarrow>
          (let pairId = pairKey searchFrom searchTo
           in case checkSupabase e pairId w of
                (staleRecord, Some fresh, w1) \<Rightarrow> (Inr (finish shouldInvert fresh), w1)
              | (staleRecord, None, w1) \<Rightarrow>
                  (case attemptAIFetchWithRetry e searchFrom searchTo 1 w1 of
                     (Inr aiResult, w2) \<Rightarrow>
                       (Inr (finish shouldInvert aiResult), saveToSupabase e pairId aiResult w2)
                   | (Inl aiError, w2) \<Rightarrow>
                       (map_sum id (finish shouldInvert) (fallback e pairId staleRecord aiError),
                        w2))))"

section \<open>The session cache of the application\<close>

record App =
  fromCurrency :: CurrencyCode
  toCurrency :: CurrencyCode
  ratesCache :: "string \<rightharpoonup> ExchangeData"
  data :: "ExchangeData option"
  loading :: bool
  error :: "string option"







section \<open>Example inputs\<close>

definition world0 :: world where
  "world0 = \<lparr>currency_rates = Map.empty, ai_calls = 0, clock_reads = 0, sleeps = []\<rparr>"

definition quote_zero_parallel :: ExchangeData where
  "quote_zero_parallel =
     \<lparr>rate = Num 2, parallelRate = Some (Num 0), lastUpdated = ''10:00:00'',
      summary = ''Stable.'', sources = []\<rparr>"

text \<open>An oracle that is rate-limited at every call.\<close>

definition error_429 :: js_error where
  "error_429 = \<lparr>status = Some 429, code = None, message = None\<rparr>"

definition env_429 :: env where
  "env_429 =
     \<lparr>JSON_parse = (\<lambda>s. None),
      toLocaleTimeString = (\<lambda>t. ''12:00:00''),
      clock = (\<lambda>n. 0),
      generateContent = (\<lambda>k from to. Inl error_429),
      select_fails = False,
      upsert_fails = False\<rparr>"

text \<open>An oracle whose answer holds no block, no object and no number.\<close>

definition env_silent :: env where
  "env_silent =
     \<lparr>JSON_parse = (\<lambda>s. None),
      toLocaleTimeString = (\<lambda>t. ''12:00:00''),
      clock = (\<lambda>n. 0),
      generateContent = (\<lambda>k from to. Inr \<lparr>resp_text = ''No data.'', groundingChunks = []\<rparr>),
      select_fails = False,
      upsert_fails = False\<rparr>"




text \<open>
  \<open>JSON.parse\<close> on the texts of the examples below; it throws on every other text
  the examples hand to it.
\<close>

definition parse_table :: "string \<Rightarrow> json option" where
  "parse_table s =
     (if s = ''{\"rate\": 1550.25, \"parallelRate\": 1600.0, \"summary\": \"Stable.\"}''
      then Some (JObj [(''rate'', JNum 1550.25), (''parallelRate'', JNum 1600),
                       (''summary'', JStr ''Stable.'')])
      else if s = ''{\"rate\": -5}'' then Some (JObj [(''rate'', JNum (- 5))])
      else if s = ''{\"rate\": 1550.25, \"parallelRate\": \"0\"}''
      then Some (JObj [(''rate'', JNum 1550.25), (''parallelRate'', JStr ''0'')])
      else if s = ''{\"rate\": 1550.25}'' then Some (JObj [(''rate'', JNum 1550.25)])
      else if s = ''{\"rate\": 1550.25, \"summary\": 7}''
      then Some (JObj [(''rate'', JNum 1550.25), (''summary'', JNum 7)])
      else None)"

text \<open>
  Answers of the oracle: a block that follows the schema, one that declares a negative
  rate, and one that declares the parallelRate as the string 0.
\<close>

definition answer_scenario :: string where
  "answer_scenario =
     ''The naira is steady.\<newline>```json\<newline>{\"rate\": 1550.25, \"parallelRate\": 1600.0, \"summary\": \"Stable.\"}\<newline>```''"



definition citations :: "Source option list" where
  "citations =
     [Some \<lparr>title = ''CBN'', uri = ''https://www.cbn.gov.ng''\<rparr>, None,
      Some \<lparr>title = ''Rates'', uri = ''https://example.com/rates''\<rparr>]"

text \<open>An oracle that gives the answer \<open>t\<close> with three grounding chunks, and a store whose upsert fails when \<open>b\<close>.\<close>

definition env_answering :: "string \<Rightarrow> bool \<Rightarrow> env" where
  "env_answering t b =
     \<lparr>JSON_parse = parse_table,
      toLocaleTimeString = (\<lambda>t. ''12:00:00''),
      clock = (\<lambda>n. 5000),
      generateContent = (\<lambda>k from to. Inr \<lparr>resp_text = t, groundingChunks = citations\<rparr>),
      select_fails = False,
      upsert_fails = b\<rparr>"

definition quote_scenario :: ExchangeData where
  "quote_scenario =
     \<lparr>rate = Num 1550.25, parallelRate = Some (Num 1600), lastUpdated = ''12:00:00'',
      summary = ''Stable.'',
      sources = [\<lparr>title = ''CBN'', uri = ''https://www.cbn.gov.ng''\<rparr>,
                 \<lparr>title = ''Rates'', uri = ''https://example.com/rates''\<rparr>]\<rparr>"












text \<open>
  More answers of the oracle: a well-formed block after prose that holds a decoy number;
  prose only; a malformed block followed by a well-formed one; and a block whose
  summary is a number.
\<close>

definition answer_decoy :: string where
  "answer_decoy =
     ''The dollar traded at 1,580.50 today.\<newline>```json\<newline>{\"rate\": 1550.25, \"parallelRate\": 1600.0, \"summary\": \"Stable.\"}\<newline>```''"

definition decoy_prose :: string where
  "decoy_prose = ''The dollar traded at 1,580.50 today.\<newline>''"

definition scenario_block :: string where
  "scenario_block = ''{\"rate\": 1550.25, \"parallelRate\": 1600.0, \"summary\": \"Stable.\"}''"

definition scenario_object :: "(string \<times> json) list" where
  "scenario_object =
     [(''rate'', JNum 1550.25), (''parallelRate'', JNum 1600), (''summary'', JStr ''Stable.'')]"

definition answer_prose :: string where
  "answer_prose = ''On 2024-05-01 the dollar traded at 1,580.50 naira.''"

definition answer_two_blocks :: string where
  "answer_two_blocks =
     ''```json\<newline>{rate: 1.5}\<newline>```\<newline>Corrected:\<newline>```json\<newline>{\"rate\": 1550.25}\<newline>```''"

definition answer_summary_number :: string where
  "answer_summary_number = ''```json\<newline>{\"rate\": 1550.25, \"summary\": 7}\<newline>```''"


section \<open>Auxiliary facts\<close>

declare attemptAIFetchWithRetry.simps [simp del]


subsection \<open>Searching in strings\<close>

lemma startsWith_appendI: "startsWith u p \<Longrightarrow> startsWith (u @ v) p"
  by (induction u p rule: startsWith.induct) simp_all

lemma startsWith_length: "startsWith s p \<Longrightarrow> length p \<le> length s"
  by (induction s p rule: startsWith.induct) simp_all

lemma startsWith_append_short:
  "startsWith (u @ v) p \<Longrightarrow> length p \<le> length u \<Longrightarrow> startsWith u p"
  by (induction u p rule: startsWith.induct) simp_all

lemma startsWith_self: "startsWith (p @ r) p"
  by (induction p) simp_all

lemma startsWith_Nil: "startsWith [] p \<longleftrightarrow> p = []"
  by (cases p) simp_all

lemma indexOf_Some:
  "indexOf s p = Some i \<Longrightarrow>
     startsWith (drop i s) p \<and> i \<le> length s \<and> (\<forall>k<i. \<not> startsWith (drop k s) p)"
proof (induction s arbitrary: i)
  case Nil
  then show ?case by (simp split: if_splits)
next
  case (Cons c cs)
  show ?case
  proof (cases "startsWith (c # cs) p")
    case True
    with Cons.prems show ?thesis by simp
  next
    case False
    with Cons.prems obtain i' where i': "indexOf cs p = Some i'" "i = Suc i'"
      by auto
    from Cons.IH [OF i'(1)] False i'(2) show ?thesis
      by (auto simp add: less_Suc_eq_0_disj)
  qed
qed

lemma indexOf_None:
  "indexOf s p = None \<Longrightarrow> \<not> startsWith (drop k s) p"
proof (induction s arbitrary: k)
  case Nil
  then show ?case by (simp add: startsWith_Nil split: if_splits)
next
  case (Cons c cs)
  then show ?case
    by (cases k) (auto split: if_splits)
qed

lemma indexOf_eqI:
  "startsWith (drop i s) p \<Longrightarrow> i \<le> length s \<Longrightarrow>
     (\<forall>k<i. \<not> startsWith (drop k s) p) \<Longrightarrow> indexOf s p = Some i"
proof (induction s arbitrary: i)
  case Nil
  then show ?case by (simp add: startsWith_Nil)
next
  case (Cons c cs)
  show ?case
  proof (cases i)
    case 0
    with Cons.prems show ?thesis by simp
  next
    case (Suc i')
    with Cons.prems have "\<not> startsWith (c # cs) p" by (metis drop0 zero_less_Suc)
    moreover have "indexOf cs p = Some i'"
    proof (rule Cons.IH)
      show "startsWith (drop i' cs) p" using Cons.prems Suc by simp
      show "i' \<le> length cs" using Cons.prems Suc by simp
      show "\<forall>k<i'. \<not> startsWith (drop k cs) p"
        using Cons.prems(3) Suc by (metis Suc_less_eq drop_Suc_Cons)
    qed
    ultimately show ?thesis using Suc by simp
  qed
qed

lemma lastIndexOf_Some:
  "lastIndexOf s p = Some j \<Longrightarrow> p \<noteq> [] \<Longrightarrow>
     startsWith (drop j s) p \<and> (\<forall>k>j. \<not> startsWith (drop k s) p)"
proof (induction s arbitrary: j)
  case Nil
  then show ?case by (simp split: if_splits)
next
  case (Cons c cs)
  show ?case
  proof (cases "lastIndexOf cs p")
    case (Some j')
    with Cons.prems have j: "j = Suc j'" by simp
    from Cons.IH [OF Some Cons.prems(2)] j show ?thesis
      by (auto simp add: Suc_less_eq2)
  next
    case None
    have no: "\<not> startsWith (drop k cs) p" for k
      using None Cons.prems(2)
    proof (induction cs arbitrary: k)
      case Nil
      then show ?case by (simp add: startsWith_Nil)
    next
      case (Cons d ds)
      then show ?case by (cases k) (auto split: option.splits if_splits)
    qed
    from None Cons.prems have "j = 0" "startsWith (c # cs) p"
      by (auto split: if_splits)
    with no show ?thesis
      by (auto simp add: gr0_conv_Suc)
  qed
qed

lemma lastIndexOf_None:
  "lastIndexOf s p = None \<Longrightarrow> \<not> startsWith (drop k s) p"
proof (induction s arbitrary: k)
  case Nil
  then show ?case by (simp add: startsWith_Nil split: if_splits)
next
  case (Cons d ds)
  then show ?case by (cases k) (auto split: option.splits if_splits)
qed

lemma indexOf_append:
  assumes "indexOf a p = Some i"
  shows "indexOf (a @ r) p = Some i"
proof (rule indexOf_eqI)
  from indexOf_Some [OF assms] have s: "startsWith (drop i a) p" and le: "i \<le> length a"
    and first: "\<forall>k<i. \<not> startsWith (drop k a) p" by simp_all
  from s le show "startsWith (drop i (a @ r)) p" by (simp add: startsWith_appendI)
  from le show "i \<le> length (a @ r)" by simp
  show "\<forall>k<i. \<not> startsWith (drop k (a @ r)) p"
  proof (intro allI impI notI)
    fix k assume k: "k < i" and m: "startsWith (drop k (a @ r)) p"
    from startsWith_length [OF s] le have "length p \<le> length a - i" by simp
    with k have "length p \<le> length (drop k a)" by simp
    moreover from m k le have "startsWith (drop k a @ r) p" by simp
    ultimately have "startsWith (drop k a) p" by (rule startsWith_append_short [rotated])
    with first k show False by simp
  qed
qed


subsection \<open>The fenced block\<close>

lemma take_length_append: "take (length xs) (xs @ ys) = xs"
  by simp

lemma match_fenced_block:
  assumes first: "indexOf (pre @ fence_json @ [newline]) (fence_json @ [newline]) = Some (length pre)"
    and closed: "indexOf (body @ newline # fence) (newline # fence) = Some (length body)"
  shows "match_fenced (pre @ fence_json @ [newline] @ body @ newline # fence @ post) =
           Some (fence_json @ [newline] @ body @ newline # fence, body)"
proof -
  let ?t = "pre @ fence_json @ [newline] @ body @ newline # fence @ post"
  have len: "length (fence_json @ [newline]) = 8" "length (newline # fence) = 4"
    by (simp_all add: fence_json_def fence_def)
  have "indexOf ((pre @ fence_json @ [newline]) @ (body @ newline # fence @ post))
          (fence_json @ [newline]) = Some (length pre)"
    using first by (rule indexOf_append)
  then have i: "indexOf ?t (fence_json @ [newline]) = Some (length pre)" by simp
  have d: "drop (length pre + 8) ?t = body @ newline # fence @ post"
    using len by simp
  have "indexOf ((body @ newline # fence) @ post) (newline # fence) = Some (length body)"
    using closed by (rule indexOf_append)
  then have j: "indexOf (drop (length pre + 8) ?t) (newline # fence) = Some (length body)"
    using d by simp
  have X: "drop (length pre) ?t = (fence_json @ [newline] @ body @ newline # fence) @ post"
    by simp
  have lX: "length (fence_json @ [newline] @ body @ newline # fence) = length body + 12"
    using len by simp
  have t1: "take (length body + 12) (drop (length pre) ?t) = fence_json @ [newline] @ body @ newline # fence"
    unfolding X lX [symmetric] by (rule take_length_append)
  have t2: "take (length body) (drop (length pre + 8) ?t) = body"
    using d by simp
  show ?thesis
    by (simp only: match_fenced_def i j t1 t2 option.case)
qed

lemma parse_answer_block:
  assumes m: "match_fenced t = Some (m0, body)"
    and ne: "body \<noteq> []"
    and parsed: "jp body = Some (JObj kvs)"
    and r: "map_of kvs ''rate'' = Some (JNum r)" "r \<noteq> 0"
    and s: "\<forall>v. map_of kvs ''summary'' = Some v \<and> truthy v \<longrightarrow> (\<exists>s. v = JStr s)"
  shows "parse_answer jp t =
           Inr (Num r,
                (case map_of kvs ''parallelRate'' of
                   None \<Rightarrow> None
                 | Some v \<Rightarrow> if truthy v then Some (parseFloat_json v) else None),
                trim (strip_fence
                  (case map_of kvs ''summary'' of
                     None \<Rightarrow> t
                   | Some v \<Rightarrow> (case v of JStr s \<Rightarrow> if s \<noteq> [] then s else t | _ \<Rightarrow> t))))"
proof -
  have js: "jsonStr_of t = Some body" using m ne by (simp add: jsonStr_of_def)
  have st: "summaryText (json_step jp t) =
      JStr (case map_of kvs ''summary'' of
                     None \<Rightarrow> t
                   | Some v \<Rightarrow> (case v of JStr s \<Rightarrow> if s \<noteq> [] then s else t | _ \<Rightarrow> t))"
    using s by (auto simp add: json_step_def js parsed split: option.splits json.splits)
  have dr: "detectedRate (json_step jp t) = Num r"
    using r by (simp add: json_step_def js parsed)
  have pr: "parallelRate_var (json_step jp t) =
      (case map_of kvs ''parallelRate'' of
                   None \<Rightarrow> None
                 | Some v \<Rightarrow> if truthy v then Some (parseFloat_json v) else None)"
    by (simp add: json_step_def js parsed split: option.splits)
  have rs: "regex_step t (json_step jp t) = json_step jp t"
    using dr r by (simp add: regex_step_def)
  show ?thesis
    using r by (simp add: parse_answer_def rs dr pr st)
qed

lemma trim_substring: "\<exists>a c. s = a @ trim s @ c"
proof -
  let ?y = "dropWhile is_space s"
  have "s = takeWhile is_space s @ ?y" by simp
  moreover have "?y = trim s @ rev (takeWhile is_space (rev ?y))"
    unfolding trim_def by (metis rev_append rev_rev_ident takeWhile_dropWhile_id)
  ultimately have "s = takeWhile is_space s @ trim s @ rev (takeWhile is_space (rev ?y))"
    by simp
  then show ?thesis by blast
qed

lemma strip_fence_no_block:
  "strip_fence s \<noteq> a @ fence_json @ b @ fence @ c"
proof
  assume eq: "strip_fence s = a @ fence_json @ b @ fence @ c"
  have lens: "length fence_json = 7" "length fence = 3" "fence \<noteq> []"
    by (simp_all add: fence_json_def fence_def)
  let ?n = "length a + 7 + length b"
  have occ1: "startsWith (drop (length a) (strip_fence s)) fence_json"
    using eq by (simp add: startsWith_self)
  have occ2: "startsWith (drop ?n (strip_fence s)) fence"
    using eq lens by (simp add: startsWith_self)
  show False
  proof (cases "indexOf s fence_json")
    case None
    then have "strip_fence s = s" by (simp add: strip_fence_def)
    with occ1 indexOf_None [OF None] show False by simp
  next
    case (Some i)
    from indexOf_Some [OF Some] have i: "startsWith (drop i s) fence_json" "i \<le> length s"
      "\<forall>k<i. \<not> startsWith (drop k s) fence_json" by simp_all
    from startsWith_length [OF i(1)] lens have i7: "i + 7 \<le> length s" by simp
    show False
    proof (cases "lastIndexOf (drop (i + 7) s) fence")
      case None
      then have same: "strip_fence s = s" using Some by (simp add: strip_fence_def)
      from occ1 same i(3) have "i \<le> length a" by (metis not_le_imp_less)
      then have "?n = (i + 7) + (?n - (i + 7))" by simp
      then have "drop ?n s = drop (?n - (i + 7)) (drop (i + 7) s)"
        by (metis drop_drop add.commute)
      with occ2 same lastIndexOf_None [OF None] show False by simp
    next
      case (Some j)
      have sf: "strip_fence s = take i s @ drop (i + 7 + j + 3) s"
        using \<open>indexOf s fence_json = Some i\<close> Some by (simp add: strip_fence_def)
      from lastIndexOf_Some [OF Some lens(3)]
      have last: "\<forall>k>j. \<not> startsWith (drop k (drop (i + 7) s)) fence" by simp
      have lt: "length (take i s) = i" using i(2) by simp
      show False
      proof (cases "length a + 7 \<le> i")
        case True
        have "drop (length a) (strip_fence s) = drop (length a) (take i s) @ drop (i + 7 + j + 3) s"
          using sf True lt by simp
        moreover have "length fence_json \<le> length (drop (length a) (take i s))"
          using True lt lens by simp
        ultimately have "startsWith (drop (length a) (take i s)) fence_json"
          using occ1 by (metis startsWith_append_short)
        then have "startsWith (drop (length a) (take i s) @ drop i s) fence_json"
          by (rule startsWith_appendI)
        moreover have "drop (length a) (take i s) @ drop i s = drop (length a) s"
          using True by (metis append_take_drop_id drop_append lt add_leD1 diff_is_0_eq drop0
              le_add1 le_trans)
        ultimately have "startsWith (drop (length a) s) fence_json" by simp
        moreover from True have "length a < i" by simp
        ultimately show False using i(3) by blast
      next
        case False
        then have ge: "i \<le> ?n" by simp
        have "drop ?n (strip_fence s) = drop (?n - i) (drop (i + 7 + j + 3) s)"
          using sf ge lt by simp
        also have "\<dots> = drop (j + 3 + (?n - i)) (drop (i + 7) s)"
        proof -
          have "?n - i + (i + 7 + j + 3) = j + 3 + (?n - i) + (i + 7)" by arith
          then show ?thesis by (simp only: drop_drop)
        qed
        finally have "startsWith (drop (j + 3 + (?n - i)) (drop (i + 7) s)) fence"
          using occ2 by simp
        with last show False by (metis add.assoc less_add_same_cancel1 zero_less_numeral
              add_gr_0 trans_less_add1)
      qed
    qed
  qed
qed

lemma trim_strip_fence_no_block:
  "trim (strip_fence s) \<noteq> a @ fence_json @ b @ fence @ c"
proof
  assume eq: "trim (strip_fence s) = a @ fence_json @ b @ fence @ c"
  obtain u v where "strip_fence s = u @ trim (strip_fence s) @ v"
    using trim_substring by blast
  with eq have "strip_fence s = (u @ a) @ fence_json @ b @ fence @ (c @ v)" by simp
  then show False using strip_fence_no_block by blast
qed


subsection \<open>The candidates of the regular expression\<close>

lemma isInteger_iff: "isInteger (Num r) \<longleftrightarrow> r \<in> \<int>"
  by (auto simp add: Ints_def)

lemma valid_candidate_iff:
  "valid_candidate v \<longleftrightarrow>
     (\<exists>r. v = Num r \<and> 0 < r \<and> r < 10000 \<and> r \<notin> \<int> \<and> r \<noteq> 2024 \<and> r \<noteq> 2025)"
proof (cases v)
  case NaN
  then show ?thesis by (simp add: valid_candidate_def)
next
  case (Num r)
  then show ?thesis
    by (simp only: valid_candidate_def isInteger_iff num_gt.simps num_lt.simps number.inject
        simp_thms ex_simps)
qed

lemma regex_rate_first:
  assumes "regex_rate t = Some v"
  shows "\<exists>i r. i < length (candidates t) \<and> candidates t ! i = v \<and> v = Num r \<and>
           0 < r \<and> r < 10000 \<and> r \<notin> \<int> \<and> r \<noteq> 2024 \<and> r \<noteq> 2025 \<and>
           (\<forall>j<i. \<not> valid_candidate (candidates t ! j))"
proof -
  from assms obtain i where i: "i < length (candidates t)" "valid_candidate (candidates t ! i)"
    "v = candidates t ! i" "\<forall>j<i. \<not> valid_candidate (candidates t ! j)"
    by (auto simp add: regex_rate_def find_Some_iff)
  from i(2,3) obtain r where "v = Num r" "0 < r" "r < 10000" "r \<notin> \<int>" "r \<noteq> 2024" "r \<noteq> 2025"
    by (auto simp add: valid_candidate_iff)
  with i show ?thesis by blast
qed

subsection \<open>The oracle call and the retry wrapper\<close>

lemma fetchFromAI_Inl:
  "fetchFromAI e from to w = (Inl err, w1) \<Longrightarrow> w1 = w\<lparr>ai_calls := Suc (ai_calls w)\<rparr>"
  by (auto simp add: fetchFromAI_def new_Date_def Let_def split: sum.splits prod.splits)

lemma fetchFromAI_Inr:
  "fetchFromAI e from to w = (Inr q, w1) \<Longrightarrow>
     w1 = w\<lparr>ai_calls := Suc (ai_calls w), clock_reads := Suc (clock_reads w)\<rparr> \<and> rate q \<noteq> Num 0"
  by (auto simp add: fetchFromAI_def new_Date_def Let_def parse_answer_def
      split: sum.splits prod.splits if_splits json.splits)

lemma attempt_0:
  "attemptAIFetchWithRetry e from to 0 w = fetchFromAI e from to w"
  by (simp add: attemptAIFetchWithRetry.simps [of e "from" to 0 w] split: prod.splits sum.splits)

lemma attempt_Suc:
  "attemptAIFetchWithRetry e from to (Suc n) w =
     (case fetchFromAI e from to w of
        (Inr r, w1) \<Rightarrow> (Inr r, w1)
      | (Inl err, w1) \<Rightarrow>
          if isQuota err then attemptAIFetchWithRetry e from to n (sleep 2000 w1)
          else (Inl err, w1))"
  by (simp add: attemptAIFetchWithRetry.simps [of e "from" to "Suc n" w]
      split: prod.splits sum.splits)

lemma attempt_world:
  "attemptAIFetchWithRetry e from to n w = (res, w') \<Longrightarrow>
     currency_rates w' = currency_rates w \<and>
     ai_calls w < ai_calls w' \<and> ai_calls w' \<le> ai_calls w + n + 1 \<and>
     sleeps w' = sleeps w @ replicate (ai_calls w' - ai_calls w - 1) 2000 \<and>
     (\<forall>q. res = Inr q \<longrightarrow> rate q \<noteq> Num 0)"
proof (induction n arbitrary: w)
  case 0
  then show ?case
    by (cases res) (auto simp add: attempt_0 dest: fetchFromAI_Inl fetchFromAI_Inr)
next
  case (Suc n)
  obtain r1 w1 where f: "fetchFromAI e from to w = (r1, w1)" by (cases "fetchFromAI e from to w")
  show ?case
  proof (cases r1)
    case (Inr q)
    with f Suc.prems show ?thesis
      by (auto simp add: attempt_Suc dest: fetchFromAI_Inr)
  next
    case (Inl err)
    with f have w1: "w1 = w\<lparr>ai_calls := Suc (ai_calls w)\<rparr>" by (simp add: fetchFromAI_Inl)
    show ?thesis
    proof (cases "isQuota err")
      case False
      with f Inl Suc.prems w1 show ?thesis by (auto simp add: attempt_Suc)
    next
      case True
      with f Inl Suc.prems have "attemptAIFetchWithRetry e from to n (sleep 2000 w1) = (res, w')"
        by (simp add: attempt_Suc)
      from Suc.IH [OF this] w1
      have ih: "currency_rates w' = currency_rates w" "Suc (ai_calls w) < ai_calls w'"
        "ai_calls w' \<le> Suc (ai_calls w) + n + 1"
        "sleeps w' = (sleeps w @ [2000]) @ replicate (ai_calls w' - Suc (ai_calls w) - 1) 2000"
        "\<forall>q. res = Inr q \<longrightarrow> rate q \<noteq> Num 0"
        by (simp_all add: sleep_def)
      from ih(2) obtain m where m: "ai_calls w' = ai_calls w + 2 + m"
        by (metis add_2_eq_Suc' less_iff_Suc_add add.commute add_Suc_right)
      from ih m show ?thesis by simp
    qed
  qed
qed

lemma zero_rate_not_quota: "\<not> isQuota (Error ''AI returned 0 rate'')"
  by (simp add: isQuota_def Error_def str_includes_def)

subsection \<open>The steps of the orchestrator\<close>











lemma fetchRealTimeRate_oracle:
  assumes sp: "searchPair from to = (searchFrom, searchTo, shouldInvert)"
    and chk: "checkSupabase e (pairKey searchFrom searchTo) w = (staleRecord, None, w1)"
  shows "fetchRealTimeRate e from to w =
           (case attemptAIFetchWithRetry e searchFrom searchTo 1 w1 of
              (Inr aiResult, w2) \<Rightarrow>
                (Inr (finish shouldInvert aiResult),
                 saveToSupabase e (pairKey searchFrom searchTo) aiResult w2)
            | (Inl aiError, w2) \<Rightarrow>
                (map_sum id (finish shouldInvert)
                   (fallback e (pairKey searchFrom searchTo) staleRecord aiError), w2))"
  using sp chk by (simp add: fetchRealTimeRate_def Let_def)


lemma silent_parse: "parse_answer (\<lambda>s. None) ''No data.'' = Inl (Error ''AI returned 0 rate'')"
  by (simp add: parse_answer_def regex_step_def json_step_def jsonStr_of_def match_fenced_def
      match_braces_def fence_json_def fence_def backtick_def newline_def parsing_init_def
      regex_rate_def candidates_def is_digit_def)




subsection \<open>The canonical pair\<close>












subsection \<open>Evaluation of the examples\<close>


lemma parse_scenario:
  "parse_answer parse_table answer_scenario = Inr (Num 1550.25, Some (Num 1600), ''Stable.'')"
  by (simp add: parse_answer_def regex_step_def json_step_def jsonStr_of_def match_fenced_def
       fence_json_def fence_def backtick_def newline_def parse_table_def answer_scenario_def
       strip_fence_def trim_def is_space_def)



lemma fetchFromAI_scenario:
  "fetchFromAI (env_answering answer_scenario b) from to w =
     (Inr quote_scenario, w\<lparr>ai_calls := Suc (ai_calls w), clock_reads := Suc (clock_reads w)\<rparr>)"
  by (simp add: fetchFromAI_def env_answering_def parse_scenario new_Date_def quote_scenario_def
      citations_def List.map_filter_def)

lemma fetchFromAI_upsert_flag:
  "fetchFromAI (e\<lparr>upsert_fails := b\<rparr>) from to w = fetchFromAI e from to w"
  by (simp add: fetchFromAI_def new_Date_def Let_def split: sum.splits prod.splits)

lemma attempt_upsert_flag:
  "attemptAIFetchWithRetry (e\<lparr>upsert_fails := b\<rparr>) from to n w =
     attemptAIFetchWithRetry e from to n w"
  by (induction n arbitrary: w)
     (simp_all add: attempt_0 attempt_Suc fetchFromAI_upsert_flag split: sum.splits prod.splits)

lemma checkSupabase_upsert_flag:
  "checkSupabase (e\<lparr>upsert_fails := b\<rparr>) pairId w = checkSupabase e pairId w"
  by (simp add: checkSupabase_def select_single_def new_Date_def mapDbToExchangeData_def
      split: option.splits)

lemma world0_clock_reads: "world0\<lparr>ai_calls := Suc (ai_calls world0), clock_reads := Suc (clock_reads world0)\<rparr>
   = world0\<lparr>ai_calls := 1, clock_reads := 1\<rparr>"
  by (simp add: world0_def)



subsection \<open>The session cache\<close>









subsection \<open>Evaluation of the parser on the examples\<close>

lemmas parser_defs =
  parse_answer_def regex_step_def json_step_def jsonStr_of_def match_fenced_def match_braces_def
  fence_json_def fence_def backtick_def newline_def dquote_def rate_key_def parsing_init_def
  regex_rate_def candidates_def strip_fence_def trim_def is_space_def is_digit_def
  parseFloat_def unsigned_literal_def nat_of_digits_def digit_val_def scale10_def exponent_of_def
  token_len_def digits3_len_def frac_len_def valid_candidate_def str_includes_def parse_table_def

lemma parse_two_blocks:
  "parse_answer parse_table answer_two_blocks = Inr (Num 1.5, None, [])"
  by (simp add: parser_defs answer_two_blocks_def)

lemma parse_summary_number:
  "parse_answer parse_table answer_summary_number =
     Inl (Error ''summaryText.replace is not a function'')"
  by (simp add: parser_defs answer_summary_number_def)

lemma parse_decoy:
  "parse_answer parse_table answer_decoy =
     Inr (Num 1550.25, Some (Num 1600), ''Stable.'')"
  by (simp add: parser_defs answer_decoy_def)

lemma parse_prose:
  "parse_answer parse_table answer_prose =
     Inr (Num 1580.5, None, ''On 2024-05-01 the dollar traded at 1,580.50 naira.'')"
  by (simp add: parser_defs answer_prose_def)

lemma candidates_prose: "candidates answer_prose = [Num 5, Num 1, Num 1580.5]"
  by (simp add: parser_defs answer_prose_def)


section \<open>The claims\<close>

subsection \<open>C1: the fallback chain\<close>



subsection \<open>C2: the canonical pair\<close>





subsection \<open>C3: the freshness window\<close>




subsection \<open>C4: the inversion step\<close>

text \<open>
  C4, as stated, fails: a quote with rate 2 and a parallelRate that is present and
  equal to 0 is inverted, and its parallelRate is not mapped to a reciprocal but
  becomes absent.
\<close>

theorem invertExchangeData_zero_parallel_counterexample:
  "num_gt (rate quote_zero_parallel) 0 \<and>
   parallelRate quote_zero_parallel = Some (Num 0) \<and>
   parallelRate (invertExchangeData quote_zero_parallel) = None \<and>
   parallelRate (invertExchangeData quote_zero_parallel)
     \<noteq> map_option recip (parallelRate quote_zero_parallel)"
  by (simp add: quote_zero_parallel_def invertExchangeData_def)

text \<open>
  C4, amended: for every quote, the inversion step maps rate to 1/rate only when rate is
  greater than 0, and returns the original quote when rate is zero or negative; when it
  inverts (rate is not zero or negative), parallelRate is mapped to 1/parallelRate if it
  is present and nonzero, and becomes absent if it is 0 or not a number; summary,
  sources and lastUpdated are left unchanged.
\<close>

theorem invertExchangeData_behaviour:
  "invertExchangeData d =
     (if num_le (rate d) 0 then d
      else \<lparr>rate = recip (rate d),
            parallelRate =
              (case parallelRate d of
                 None \<Rightarrow> None
               | Some p \<Rightarrow> if truthy_num p then Some (recip p) else None),
            lastUpdated = lastUpdated d, summary = summary d, sources = sources d\<rparr>) \<and>
   rate (invertExchangeData d) = (if num_gt (rate d) 0 then recip (rate d) else rate d)"
  by (cases d; cases "rate d") (auto simp add: invertExchangeData_def)

subsection \<open>C5: the retry wrapper\<close>

text \<open>
  C5: the retry wrapper returns a successful oracle call as it is; on a failure it
  retries only when the error carries a rate-limit signal (status 429, code 429, or a
  message containing 429 or quota) and the remaining budget is positive, after a wait of
  2000 ms and with the budget decremented; any other error, or an exhausted budget,
  is returned at once. No more than budget + 1 calls are made. With budget 1, when the
  first call fails with a rate-limit error and the second call fails too, the second
  error is returned after exactly two calls and one wait.
\<close>

theorem retry_only_on_rate_limit:
  "(fetchFromAI e from to w = (Inr r, w1) \<longrightarrow>
      attemptAIFetchWithRetry e from to retries w = (Inr r, w1)) \<and>
   (fetchFromAI e from to w = (Inl err, w1) \<and> \<not> (0 < retries \<and> isQuota err) \<longrightarrow>
      attemptAIFetchWithRetry e from to retries w = (Inl err, w1)) \<and>
   (fetchFromAI e from to w = (Inl err, w1) \<and> 0 < retries \<and> isQuota err \<longrightarrow>
      attemptAIFetchWithRetry e from to retries w =
        attemptAIFetchWithRetry e from to (retries - 1) (w1\<lparr>sleeps := sleeps w1 @ [2000]\<rparr>)) \<and>
   (isQuota err \<longleftrightarrow>
      status err = Some 429 \<or> code err = Some 429 \<or>
      (\<exists>m. message err = Some m \<and> (str_includes m ''429'' \<or> str_includes m ''quota''))) \<and>
   ai_calls (snd (attemptAIFetchWithRetry e from to retries w)) \<le> ai_calls w + retries + 1 \<and>
   (fetchFromAI e from to w = (Inl err, w1) \<and> isQuota err \<and>
    fetchFromAI e from to (sleep 2000 w1) = (Inl err2, w2) \<longrightarrow>
      attemptAIFetchWithRetry e from to 1 w = (Inl err2, w2) \<and>
      ai_calls w2 = ai_calls w + 2 \<and> sleeps w2 = sleeps w @ [2000])"
proof -
  have a: "fetchFromAI e from to w = (Inr r, w1) \<longrightarrow>
      attemptAIFetchWithRetry e from to retries w = (Inr r, w1)"
    by (simp add: attemptAIFetchWithRetry.simps [of e "from" to retries w])
  have b: "fetchFromAI e from to w = (Inl err, w1) \<and> \<not> (0 < retries \<and> isQuota err) \<longrightarrow>
      attemptAIFetchWithRetry e from to retries w = (Inl err, w1)"
    by (auto simp add: attemptAIFetchWithRetry.simps [of e "from" to retries w])
  have c: "fetchFromAI e from to w = (Inl err, w1) \<and> 0 < retries \<and> isQuota err \<longrightarrow>
      attemptAIFetchWithRetry e from to retries w =
        attemptAIFetchWithRetry e from to (retries - 1) (w1\<lparr>sleeps := sleeps w1 @ [2000]\<rparr>)"
    by (auto simp add: attemptAIFetchWithRetry.simps [of e "from" to retries w] sleep_def)
  have d: "isQuota err \<longleftrightarrow>
      status err = Some 429 \<or> code err = Some 429 \<or>
      (\<exists>m. message err = Some m \<and> (str_includes m ''429'' \<or> str_includes m ''quota''))"
    by (cases "message err") (auto simp add: isQuota_def str_includes_def)
  have f: "ai_calls (snd (attemptAIFetchWithRetry e from to retries w)) \<le> ai_calls w + retries + 1"
    using attempt_world [of e "from" to retries w] by (cases "attemptAIFetchWithRetry e from to retries w") simp
  have g: "fetchFromAI e from to w = (Inl err, w1) \<and> isQuota err \<and>
    fetchFromAI e from to (sleep 2000 w1) = (Inl err2, w2) \<longrightarrow>
      attemptAIFetchWithRetry e from to 1 w = (Inl err2, w2) \<and>
      ai_calls w2 = ai_calls w + 2 \<and> sleeps w2 = sleeps w @ [2000]"
  proof (intro impI, elim conjE)
    assume 1: "fetchFromAI e from to w = (Inl err, w1)" and 2: "isQuota err"
      and 3: "fetchFromAI e from to (sleep 2000 w1) = (Inl err2, w2)"
    from 1 have w1: "w1 = w\<lparr>ai_calls := Suc (ai_calls w)\<rparr>" by (rule fetchFromAI_Inl)
    from 3 have w2: "w2 = (sleep 2000 w1)\<lparr>ai_calls := Suc (ai_calls (sleep 2000 w1))\<rparr>"
      by (rule fetchFromAI_Inl)
    have "attemptAIFetchWithRetry e from to (Suc 0) w = (Inl err2, w2)"
      using 1 2 3 by (simp add: attempt_Suc attempt_0)
    with w1 w2 show "attemptAIFetchWithRetry e from to 1 w = (Inl err2, w2) \<and>
      ai_calls w2 = ai_calls w + 2 \<and> sleeps w2 = sleeps w @ [2000]"
      by (simp add: sleep_def)
  qed
  from a b c d f g show ?thesis by blast
qed

text \<open>
  Witness, with budget 1: an oracle that answers every call with status 429 (two calls,
  one wait); an answer without any rate, whose error is not a rate-limit error (one call);
  and an answer that parses (one call).
\<close>

theorem retry_only_on_rate_limit_witness:
  "fetchFromAI env_429 USD NGN world0 = (Inl error_429, world0\<lparr>ai_calls := 1\<rparr>) \<and>
   isQuota error_429 \<and>
   fetchFromAI env_429 USD NGN (sleep 2000 (world0\<lparr>ai_calls := 1\<rparr>)) =
     (Inl error_429, world0\<lparr>ai_calls := 2, sleeps := [2000]\<rparr>) \<and>
   attemptAIFetchWithRetry env_429 USD NGN 1 world0 =
     (Inl error_429, world0\<lparr>ai_calls := 2, sleeps := [2000]\<rparr>) \<and>
   fetchFromAI env_silent USD NGN world0 =
     (Inl (Error ''AI returned 0 rate''), world0\<lparr>ai_calls := 1\<rparr>) \<and>
   \<not> isQuota (Error ''AI returned 0 rate'') \<and>
   attemptAIFetchWithRetry env_silent USD NGN 1 world0 =
     (Inl (Error ''AI returned 0 rate''), world0\<lparr>ai_calls := 1\<rparr>) \<and>
   fetchFromAI (env_answering answer_scenario False) USD NGN world0 =
     (Inr quote_scenario, world0\<lparr>ai_calls := 1, clock_reads := 1\<rparr>) \<and>
   attemptAIFetchWithRetry (env_answering answer_scenario False) USD NGN 1 world0 =
     (Inr quote_scenario, world0\<lparr>ai_calls := 1, clock_reads := 1\<rparr>)"
proof -
  have h1: "fetchFromAI env_429 USD NGN world0 = (Inl error_429, world0\<lparr>ai_calls := 1\<rparr>)"
    by (simp add: fetchFromAI_def env_429_def world0_def)
  have h2: "isQuota error_429"
    by (simp add: isQuota_def error_429_def)
  have h3: "fetchFromAI env_429 USD NGN (sleep 2000 (world0\<lparr>ai_calls := 1\<rparr>)) =
     (Inl error_429, world0\<lparr>ai_calls := 2, sleeps := [2000]\<rparr>)"
    by (simp add: fetchFromAI_def env_429_def world0_def sleep_def)
  have "attemptAIFetchWithRetry env_429 USD NGN 1 world0 =
     (Inl error_429, world0\<lparr>ai_calls := 2, sleeps := [2000]\<rparr>)"
    using retry_only_on_rate_limit [where e = env_429 and ?from = USD and to = NGN and w = world0
      and retries = 1 and err = error_429 and ?w1.0 = "world0\<lparr>ai_calls := 1\<rparr>"
      and ?err2.0 = error_429 and ?w2.0 = "world0\<lparr>ai_calls := 2, sleeps := [2000]\<rparr>"]
      h1 h2 h3 by blast
  then have r1: "attemptAIFetchWithRetry env_429 USD NGN 1 world0 =
     (Inl error_429, world0\<lparr>ai_calls := 2, sleeps := [2000]\<rparr>)" .
  have k1: "fetchFromAI env_silent USD NGN world0 =
     (Inl (Error ''AI returned 0 rate''), world0\<lparr>ai_calls := 1\<rparr>)"
    by (simp add: fetchFromAI_def env_silent_def silent_parse world0_def)
  note k2 = zero_rate_not_quota
  have r2: "attemptAIFetchWithRetry env_silent USD NGN 1 world0 =
     (Inl (Error ''AI returned 0 rate''), world0\<lparr>ai_calls := 1\<rparr>)"
    using retry_only_on_rate_limit [where e = env_silent and ?from = USD and to = NGN
      and w = world0 and retries = 1 and err = "Error ''AI returned 0 rate''"
      and ?w1.0 = "world0\<lparr>ai_calls := 1\<rparr>"] k1 k2
    by blast
  have m1: "fetchFromAI (env_answering answer_scenario False) USD NGN world0 =
     (Inr quote_scenario, world0\<lparr>ai_calls := 1, clock_reads := 1\<rparr>)"
    by (simp add: fetchFromAI_scenario world0_clock_reads)
  have r3: "attemptAIFetchWithRetry (env_answering answer_scenario False) USD NGN 1 world0 =
     (Inr quote_scenario, world0\<lparr>ai_calls := 1, clock_reads := 1\<rparr>)"
    using retry_only_on_rate_limit [where e = "env_answering answer_scenario False"
      and ?from = USD and to = NGN and w = world0 and retries = 1 and r = quote_scenario
      and ?w1.0 = "world0\<lparr>ai_calls := 1, clock_reads := 1\<rparr>"] m1
    by blast
  from h1 h2 h3 r1 k1 k2 r2 m1 r3 show ?thesis by blast
qed

subsection \<open>C6: the parser of the oracle's answer\<close>

text \<open>
  C6, as stated, fails, in two ways. A text can contain a well-formed fenced block with
  the rate 1550.25 after an earlier fenced block that is not JSON: the parser reads the
  first block only, fails to parse it, and extracts 1.5, a match of the regular
  expression. And a well-formed first block with the rate 1550.25 whose summary is the
  number 7 makes the parser throw a type error when it strips the summary: no rate is
  extracted at all.
\<close>

theorem parser_priority_counterexample:
  "answer_two_blocks =
     ''```json\<newline>{rate: 1.5}\<newline>```\<newline>Corrected:\<newline>'' @
     fence_json @ [newline] @ ''{\"rate\": 1550.25}'' @ newline # fence \<and>
   parse_table ''{\"rate\": 1550.25}'' = Some (JObj [(''rate'', JNum 1550.25)]) \<and>
   parse_answer parse_table answer_two_blocks = Inr (Num 1.5, None, []) \<and>
   answer_summary_number =
     fence_json @ [newline] @ ''{\"rate\": 1550.25, \"summary\": 7}'' @ newline # fence \<and>
   parse_table ''{\"rate\": 1550.25, \"summary\": 7}'' =
     Some (JObj [(''rate'', JNum 1550.25), (''summary'', JNum 7)]) \<and>
   parse_answer parse_table answer_summary_number =
     Inl (Error ''summaryText.replace is not a function'')"
proof -
  have a: "answer_two_blocks =
     ''```json\<newline>{rate: 1.5}\<newline>```\<newline>Corrected:\<newline>'' @
     fence_json @ [newline] @ ''{\"rate\": 1550.25}'' @ newline # fence"
    by (simp add: answer_two_blocks_def fence_json_def fence_def backtick_def newline_def)
  have b: "parse_table ''{\"rate\": 1550.25}'' = Some (JObj [(''rate'', JNum 1550.25)])"
    by (simp add: parse_table_def)
  have c: "answer_summary_number =
     fence_json @ [newline] @ ''{\"rate\": 1550.25, \"summary\": 7}'' @ newline # fence"
    by (simp add: answer_summary_number_def fence_json_def fence_def backtick_def newline_def)
  have d: "parse_table ''{\"rate\": 1550.25, \"summary\": 7}'' =
     Some (JObj [(''rate'', JNum 1550.25), (''summary'', JNum 7)])"
    by (simp add: parse_table_def)
  from a b c d parse_two_blocks parse_summary_number show ?thesis by blast
qed

text \<open>
  C6, amended. When the first fenced block of the text (no opening fence stands before
  it, and its content holds no closing fence) is well-formed and not empty, and declares a
  rate that is a nonzero number and a summary that is absent, falsy or a string, the parser
  extracts that rate, whatever numbers the prose holds. The regular expression is used
  only when the rate detected so far is falsy (none, zero or not a number), and then the
  rate is the first candidate, among the tokens of the text without its years 2020 to
  2029, that is positive, below 10000, not an integer and neither 2024 nor 2025. The
  summary the parser returns never contains a fenced block: an opening fence followed
  later by a closing fence.
\<close>

theorem parser_priority:
  "(indexOf (pre @ fence_json @ [newline]) (fence_json @ [newline]) = Some (length pre) \<and>
    indexOf (body @ newline # fence) (newline # fence) = Some (length body) \<and>
    body \<noteq> [] \<and> jp body = Some (JObj kvs) \<and>
    map_of kvs ''rate'' = Some (JNum x) \<and> x \<noteq> 0 \<and>
    (\<forall>v. map_of kvs ''summary'' = Some v \<and> truthy v \<longrightarrow> (\<exists>s. v = JStr s)) \<longrightarrow>
      (\<exists>p s. parse_answer jp (pre @ fence_json @ [newline] @ body @ newline # fence @ post)
                = Inr (Num x, p, s))) \<and>
   detectedRate (regex_step t pj) =
     (if truthy_num (detectedRate pj) then detectedRate pj
      else (case find valid_candidate (candidates t) of
              Some v \<Rightarrow> v
            | None \<Rightarrow> detectedRate pj)) \<and>
   candidates t =
     map (\<lambda>m. parseFloat (filter (\<lambda>c. c \<noteq> CHR '','') m)) (rateMatches (strip_years t)) \<and>
   (\<forall>v. find valid_candidate (candidates t) = Some v \<longrightarrow>
      (\<exists>i r. i < length (candidates t) \<and> candidates t ! i = v \<and> v = Num r \<and>
             0 < r \<and> r < 10000 \<and> r \<notin> \<int> \<and> r \<noteq> 2024 \<and> r \<noteq> 2025 \<and>
             (\<forall>j<i. \<not> valid_candidate (candidates t ! j)))) \<and>
   (\<forall>r p s a b c. parse_answer jp t = Inr (r, p, s) \<longrightarrow> s \<noteq> a @ fence_json @ b @ fence @ c)"
proof -
  have a: "\<exists>p s. parse_answer jp (pre @ fence_json @ [newline] @ body @ newline # fence @ post)
                = Inr (Num x, p, s)"
    if h: "indexOf (pre @ fence_json @ [newline]) (fence_json @ [newline]) = Some (length pre)"
      "indexOf (body @ newline # fence) (newline # fence) = Some (length body)"
      "body \<noteq> []" "jp body = Some (JObj kvs)" "map_of kvs ''rate'' = Some (JNum x)" "x \<noteq> 0"
      "\<forall>v. map_of kvs ''summary'' = Some v \<and> truthy v \<longrightarrow> (\<exists>s. v = JStr s)"
    using parse_answer_block [where jp = jp,
        OF match_fenced_block [OF h(1) h(2), of post] h(3) h(4) h(5) h(6) h(7)]
    by blast
  have b: "detectedRate (regex_step t pj) =
     (if truthy_num (detectedRate pj) then detectedRate pj
      else (case find valid_candidate (candidates t) of
              Some v \<Rightarrow> v
            | None \<Rightarrow> detectedRate pj))"
    by (simp add: regex_step_def regex_rate_def split: option.splits)
  have c: "candidates t =
     map (\<lambda>m. parseFloat (filter (\<lambda>c. c \<noteq> CHR '','') m)) (rateMatches (strip_years t))"
    by (simp add: candidates_def)
  have d: "\<forall>v. find valid_candidate (candidates t) = Some v \<longrightarrow>
      (\<exists>i r. i < length (candidates t) \<and> candidates t ! i = v \<and> v = Num r \<and>
             0 < r \<and> r < 10000 \<and> r \<notin> \<int> \<and> r \<noteq> 2024 \<and> r \<noteq> 2025 \<and>
             (\<forall>j<i. \<not> valid_candidate (candidates t ! j)))"
    using regex_rate_first [of t] by (simp add: regex_rate_def)
  have e: "\<forall>r p s a b c. parse_answer jp t = Inr (r, p, s) \<longrightarrow> s \<noteq> a @ fence_json @ b @ fence @ c"
  proof (intro allI impI)
    fix r p s a b c
    assume "parse_answer jp t = Inr (r, p, s)"
    then obtain y where "s = trim (strip_fence y)"
      by (auto simp add: parse_answer_def Let_def split: if_splits json.splits)
    then show "s \<noteq> a @ fence_json @ b @ fence @ c"
      by (simp add: trim_strip_fence_no_block)
  qed
  show ?thesis
    apply (intro conjI)
    subgoal using a by blast
    subgoal by (rule b)
    subgoal by (rule c)
    subgoal by (rule d)
    subgoal by (rule e)
    done
qed


text \<open>
  Witness: prose holding the decoy 1,580.50 before a well-formed block that declares
  1550.25, which is the rate extracted; and prose only, with a date, from which the
  regular expression extracts 1580.5 after the candidates 5 and 1 of the date.
\<close>

theorem parser_priority_witness:
  "answer_decoy = decoy_prose @ fence_json @ [newline] @ scenario_block @ newline # fence @ [] \<and>
   indexOf (decoy_prose @ fence_json @ [newline]) (fence_json @ [newline])
     = Some (length decoy_prose) \<and>
   indexOf (scenario_block @ newline # fence) (newline # fence) = Some (length scenario_block) \<and>
   scenario_block \<noteq> [] \<and>
   parse_table scenario_block = Some (JObj scenario_object) \<and>
   map_of scenario_object ''rate'' = Some (JNum 1550.25) \<and>
   map_of scenario_object ''summary'' = Some (JStr ''Stable.'') \<and>
   (\<exists>p s. parse_answer parse_table answer_decoy = Inr (Num 1550.25, p, s)) \<and>
   parse_answer parse_table answer_decoy = Inr (Num 1550.25, Some (Num 1600), ''Stable.'') \<and>
   candidates answer_prose = [Num 5, Num 1, Num 1580.5] \<and>
   find valid_candidate (candidates answer_prose) = Some (Num 1580.5) \<and>
   (\<exists>i r. i < length (candidates answer_prose) \<and> candidates answer_prose ! i = Num 1580.5 \<and>
      Num 1580.5 = Num r \<and> 0 < r \<and> r < 10000 \<and> r \<notin> \<int> \<and>
      (\<forall>j<i. \<not> valid_candidate (candidates answer_prose ! j))) \<and>
   parse_answer parse_table answer_prose =
     Inr (Num 1580.5, None, ''On 2024-05-01 the dollar traded at 1,580.50 naira.'') \<and>
   (\<forall>a b c. ''On 2024-05-01 the dollar traded at 1,580.50 naira.''
                \<noteq> a @ fence_json @ b @ fence @ c)"
proof -
  have a: "answer_decoy = decoy_prose @ fence_json @ [newline] @ scenario_block @ newline # fence @ []"
    by (simp add: answer_decoy_def decoy_prose_def scenario_block_def fence_json_def fence_def
        backtick_def newline_def)
  have b: "indexOf (decoy_prose @ fence_json @ [newline]) (fence_json @ [newline])
     = Some (length decoy_prose)"
    by (simp add: decoy_prose_def fence_json_def fence_def backtick_def newline_def)
  have c: "indexOf (scenario_block @ newline # fence) (newline # fence) = Some (length scenario_block)"
    by (simp add: scenario_block_def fence_def backtick_def newline_def)
  have d: "scenario_block \<noteq> []" by (simp add: scenario_block_def)
  have e: "parse_table scenario_block = Some (JObj scenario_object)"
    by (simp add: parse_table_def scenario_block_def scenario_object_def)
  have f: "map_of scenario_object ''rate'' = Some (JNum 1550.25)"
    "map_of scenario_object ''summary'' = Some (JStr ''Stable.'')"
    by (simp_all add: scenario_object_def)
  have g: "find valid_candidate (candidates answer_prose) = Some (Num 1580.5)"
    by (simp add: candidates_prose valid_candidate_def)
  note pp = parser_priority [where pre = decoy_prose and body = scenario_block
      and jp = parse_table and kvs = scenario_object and x = "1550.25" and post = "[]"
      and t = answer_prose]
  from pp a b c d e f
  have h: "\<exists>p s. parse_answer parse_table answer_decoy = Inr (Num 1550.25, p, s)"
    by simp
  from pp g
  have i: "\<exists>i r. i < length (candidates answer_prose) \<and> candidates answer_prose ! i = Num 1580.5 \<and>
      Num 1580.5 = Num r \<and> 0 < r \<and> r < 10000 \<and> r \<notin> \<int> \<and>
      (\<forall>j<i. \<not> valid_candidate (candidates answer_prose ! j))"
    by blast
  from pp parse_prose
  have j: "\<forall>a b c. ''On 2024-05-01 the dollar traded at 1,580.50 naira.''
                \<noteq> a @ fence_json @ b @ fence @ c"
    by blast
  from a b c d e f g h i j parse_decoy parse_prose candidates_prose show ?thesis by blast
qed

subsection \<open>C7: the session cache\<close>






subsection \<open>C8: the rate of a returned quote\<close>




subsection \<open>C9: persisting the oracle's result\<close>

text \<open>
  C9: when no fresh row was found and the oracle query succeeds, the result returned to
  the caller is the oracle's result (inverted when the request was NGN to a foreign
  currency), whether the upsert fails or not; the row of the canonical pair key is
  replaced when the result's rate is greater than 0 and the upsert does not fail, and the
  table is unchanged otherwise. The write is issued and not awaited; its effect on the
  table is taken here at the end of the resolution.
\<close>

theorem persistence_failure_is_harmless:
  assumes sp: "searchPair from to = (searchFrom, searchTo, shouldInvert)"
    and chk: "checkSupabase e (pairKey searchFrom searchTo) w = (staleRecord, None, w1)"
    and ok: "attemptAIFetchWithRetry e searchFrom searchTo 1 w1 = (Inr aiResult, w2)"
  shows "fst (fetchRealTimeRate (e\<lparr>upsert_fails := b\<rparr>) from to w) =
           Inr (finish shouldInvert aiResult) \<and>
         currency_rates (snd (fetchRealTimeRate (e\<lparr>upsert_fails := b\<rparr>) from to w)) =
           (if num_gt (rate aiResult) 0 \<and> \<not> b
            then (currency_rates w)
                   (pairKey searchFrom searchTo \<mapsto>
                      \<lparr>row_rate = rate aiResult,
                       parallel_rate = or_undefined (parallelRate aiResult),
                       row_summary = summary aiResult,
                       row_sources = Some (sources aiResult),
                       updated_at = clock e (clock_reads w2)\<rparr>)
            else currency_rates w)"
proof -
  have chk': "checkSupabase (e\<lparr>upsert_fails := b\<rparr>) (pairKey searchFrom searchTo) w =
      (staleRecord, None, w1)"
    using chk by (simp add: checkSupabase_upsert_flag)
  have ok': "attemptAIFetchWithRetry (e\<lparr>upsert_fails := b\<rparr>) searchFrom searchTo 1 w1 =
      (Inr aiResult, w2)"
    using ok by (simp add: attempt_upsert_flag)
  have t1: "currency_rates w1 = currency_rates w"
    using chk by (auto simp add: checkSupabase_def new_Date_def split: option.splits)
  have t2: "currency_rates w2 = currency_rates w1"
    using attempt_world [OF ok] by simp
  show ?thesis
    using ok' t1 t2
    by (simp add: fetchRealTimeRate_oracle [OF sp chk'] saveToSupabase_def new_Date_def upsert_def)
qed


text \<open>
  Witness: USD to NGN with an empty store and the answer that follows the schema: the
  same quote with a failing and with a working upsert, stored in the second case only.
\<close>

theorem persistence_failure_is_harmless_witness:
  "searchPair USD NGN = (USD, NGN, False) \<and>
   checkSupabase (env_answering answer_scenario False) (pairKey USD NGN) world0 = (None, None, world0) \<and>
   attemptAIFetchWithRetry (env_answering answer_scenario False) USD NGN 1 world0 =
     (Inr quote_scenario, world0\<lparr>ai_calls := 1, clock_reads := 1\<rparr>) \<and>
   fst (fetchRealTimeRate (env_answering answer_scenario True) USD NGN world0) = Inr quote_scenario \<and>
   currency_rates (snd (fetchRealTimeRate (env_answering answer_scenario True) USD NGN world0)) =
     Map.empty \<and>
   fst (fetchRealTimeRate (env_answering answer_scenario False) USD NGN world0) = Inr quote_scenario \<and>
   currency_rates (snd (fetchRealTimeRate (env_answering answer_scenario False) USD NGN world0)) =
     [''USD-NGN'' \<mapsto>
        \<lparr>row_rate = Num 1550.25, parallel_rate = Some (Num 1600), row_summary = ''Stable.'',
         row_sources = Some (sources quote_scenario), updated_at = 5000\<rparr>]"
proof -
  let ?e = "env_answering answer_scenario False"
  have sp: "searchPair USD NGN = (USD, NGN, False)"
    by (simp add: searchPair_def)
  have chk: "checkSupabase ?e (pairKey USD NGN) world0 = (None, None, world0)"
    by (simp add: checkSupabase_def select_single_def env_answering_def world0_def)
  have ok: "attemptAIFetchWithRetry ?e USD NGN 1 world0 =
     (Inr quote_scenario, world0\<lparr>ai_calls := 1, clock_reads := 1\<rparr>)"
    by (simp add: attempt_Suc fetchFromAI_scenario world0_clock_reads)
  have clk: "clock ?e n = 5000" for n
    by (simp add: env_answering_def)
  have flag: "?e\<lparr>upsert_fails := b\<rparr> = env_answering answer_scenario b" for b
    by (simp add: env_answering_def)
  have pos: "num_gt (rate quote_scenario) 0"
    by (simp add: quote_scenario_def)
  have vals: "rate quote_scenario = Num 1550.25" "summary quote_scenario = ''Stable.''"
    "or_undefined (parallelRate quote_scenario) = Some (Num 1600)"
    "currency_rates world0 = Map.empty" "pairKey USD NGN = ''USD-NGN''"
    by (simp_all add: quote_scenario_def env_answering_def world0_def pairKey_def)
  from persistence_failure_is_harmless [OF sp chk ok, of True]
  have t: "fst (fetchRealTimeRate (env_answering answer_scenario True) USD NGN world0) = Inr quote_scenario \<and>
     currency_rates (snd (fetchRealTimeRate (env_answering answer_scenario True) USD NGN world0)) =
       Map.empty"
    by (simp add: flag finish_def vals)
  from persistence_failure_is_harmless [OF sp chk ok, of False]
  have f: "fst (fetchRealTimeRate (env_answering answer_scenario False) USD NGN world0) = Inr quote_scenario \<and>
     currency_rates (snd (fetchRealTimeRate (env_answering answer_scenario False) USD NGN world0)) =
     [''USD-NGN'' \<mapsto>
        \<lparr>row_rate = Num 1550.25, parallel_rate = Some (Num 1600), row_summary = ''Stable.'',
         row_sources = Some (sources quote_scenario), updated_at = 5000\<rparr>]"
    by (simp add: flag finish_def vals pos clk)
  from sp chk ok t f show ?thesis by blast
qed

subsection \<open>C10: a parallelRate equal to 0\<close>




end
